theory Spec2Isabelle
  imports Complex_Main "HOL-Library.Sublist"
begin

section \<open>Chunked audio transcription: the pipeline of \<open>long_audio_transcriber.py\<close>\<close>

text \<open>
  The development follows \<open>ChunkedAudioTranscriber\<close>: \<open>split_audio\<close> cuts a track into
  windows, \<open>transcribe_chunk\<close> drives the remote service for one window,
  \<open>merge_transcriptions\<close> assembles the per-chunk dictionaries into the final one, and
  \<open>transcribe_long_audio\<close> sequences the three and removes the temporary files.

  Python dictionaries with a fixed set of keys are records; a key that some code paths
  leave out is a field of option type (\<open>None\<close>: the key is absent). Python integers are
  \<open>int\<close>. Durations measured with \<open>time.time()\<close> are \<open>real\<close>: the rounding of floating
  point addition is outside the model. A Python string is a \<open>string\<close>; the only
  operations used on it (\<open>join\<close>, \<open>replace\<close>, \<open>strip\<close>, \<open>split\<close>, truth value) treat it
  as a sequence of characters.
\<close>

subsection \<open>String operations of the Python runtime\<close>

text \<open>\<open>sep.join(parts)\<close>.\<close>

fun join :: "string \<Rightarrow> string list \<Rightarrow> string" where
  "join sep [] = []"
| "join sep [x] = x"
| "join sep (x # y # ys) = x @ sep @ join sep (y # ys)"

text \<open>
  \<open>s.replace(old, new)\<close> for a non-empty \<open>old\<close>: one scan from the left; at each
  position where \<open>old\<close> starts, \<open>new\<close> is emitted and the scan resumes behind the
  occurrence, so the emitted text is never scanned again.
\<close>

fun replace_scan :: "string \<Rightarrow> string \<Rightarrow> string \<Rightarrow> string" where
  "replace_scan old new [] = []"
| "replace_scan old new (c # cs) =
     (if old = [] then c # cs
      else if prefix old (c # cs) then new @ replace_scan old new (drop (length old) (c # cs))
      else c # replace_scan old new cs)"

text \<open>With an empty \<open>old\<close>, Python puts \<open>new\<close> before every character and at the end.\<close>

definition str_replace :: "string \<Rightarrow> string \<Rightarrow> string \<Rightarrow> string" where
  "str_replace old new s =
     (if old = [] then new @ concat (map (\<lambda>c. c # new) s) else replace_scan old new s)"

definition nl2 :: string where
  "nl2 = ''\<newline>\<newline>''"

definition nl3 :: string where
  "nl3 = ''\<newline>\<newline>\<newline>''"

text \<open>The length of the longest run of consecutive line breaks in a text.\<close>

fun newline_runs :: "nat \<Rightarrow> nat \<Rightarrow> string \<Rightarrow> nat" where
  "newline_runs cur best [] = max cur best"
| "newline_runs cur best (c # cs) =
     (if c = CHR ''\<newline>'' then newline_runs (Suc cur) best cs
      else newline_runs 0 (max cur best) cs)"

definition longest_newline_run :: "string \<Rightarrow> nat" where
  "longest_newline_run s = newline_runs 0 0 s"

text \<open>
  \<open>str.isspace\<close> on one character, for the code points below 256: the ASCII controls
  9 to 13 and 28 to 31, the space, NEL (133) and the no-break space (160).
\<close>

definition isspace :: "char \<Rightarrow> bool" where
  "isspace c \<longleftrightarrow> (of_char c :: nat) \<in> {9, 10, 11, 12, 13, 28, 29, 30, 31, 32, 133, 160}"

text \<open>\<open>s.strip()\<close>: leading and trailing whitespace removed.\<close>

definition str_strip :: "string \<Rightarrow> string" where
  "str_strip s = rev (dropWhile isspace (rev (dropWhile isspace s)))"

text \<open>
  \<open>s.split()\<close>: the maximal runs of non-whitespace characters, in order. \<open>cur\<close> is the
  word being read.
\<close>

fun split_scan :: "string \<Rightarrow> string \<Rightarrow> string list" where
  "split_scan cur [] = (if cur = [] then [] else [cur])"
| "split_scan cur (c # cs) =
     (if isspace c then (if cur = [] then split_scan [] cs else cur # split_scan [] cs)
      else split_scan (cur @ [c]) cs)"

definition str_split :: "string \<Rightarrow> string list" where
  "str_split s = split_scan [] s"

text \<open>\<open>str(n)\<close> for a non-negative integer, and the format \<open>{n:03d}\<close>.\<close>

function str_nat :: "nat \<Rightarrow> string" where
  "str_nat n =
     (if n < 10 then [''0123456789'' ! n]
      else str_nat (n div 10) @ [''0123456789'' ! (n mod 10)])"
  by pat_completeness auto
termination
  by (relation "measure id") auto

declare str_nat.simps [simp del]

definition fmt_03d :: "nat \<Rightarrow> string" where
  "fmt_03d n = replicate (3 - length (str_nat n)) CHR ''0'' @ str_nat n"

text \<open>
  \<open>os.path.join\<close> of a directory and a relative name, and \<open>os.path.dirname\<close>, in the
  POSIX flavour of the standard library.
\<close>

definition path_join :: "string \<Rightarrow> string \<Rightarrow> string" where
  "path_join d name =
     (if d = [] \<or> last d = CHR ''/'' then d @ name else d @ ''/'' @ name)"

definition dirname :: "string \<Rightarrow> string" where
  "dirname p =
     (let head = rev (dropWhile (\<lambda>c. c \<noteq> CHR ''/'') (rev p))
      in if head \<noteq> [] \<and> head \<noteq> replicate (length head) CHR ''/''
         then rev (dropWhile (\<lambda>c. c = CHR ''/'') (rev head))
         else head)"

subsection \<open>The per-chunk result and the final report\<close>

text \<open>
  The dictionary returned by \<open>transcribe_chunk\<close>. The branch for a remote \<open>FAILED\<close> state
  sets neither \<open>processing_time\<close> nor \<open>word_count\<close>; the other failure branches set no
  \<open>word_count\<close>.
\<close>

record chunk_result =
  success :: bool
  error :: "string option"
  transcript :: string
  start_time :: int
  end_time :: int
  processing_time :: "real option"
  word_count :: "int option"

text \<open>
  The dictionary returned by \<open>merge_transcriptions\<close> and \<open>transcribe_long_audio\<close>. The
  counts exist only in the dictionary built when some chunk succeeded.
\<close>

record report =
  rep_success :: bool
  rep_error :: "string option"
  rep_transcript :: string
  total_chunks :: "nat option"
  successful_chunks :: "nat option"
  failed_chunks :: "nat option"
  total_words :: "int option"
  total_processing_time :: "real option"
  chunk_results :: "chunk_result list option"

subsection \<open>\<open>merge_transcriptions\<close>\<close>

text \<open>\<open>d.get(key, 0)\<close> on an optional numeric key.\<close>

definition get0 :: "'a::zero option \<Rightarrow> 'a" where
  "get0 v = (case v of None \<Rightarrow> 0 | Some x \<Rightarrow> x)"

text \<open>
  The \<open>for result in successful_chunks\<close> loop, on the triple of its three accumulators
  \<open>full_transcript_parts\<close>, \<open>total_words\<close>, \<open>total_processing_time\<close>.
\<close>

fun merge_loop ::
  "chunk_result list \<Rightarrow> string list \<times> int \<times> real \<Rightarrow> string list \<times> int \<times> real" where
  "merge_loop [] acc = acc"
| "merge_loop (result # rest) (parts, words, time) =
     merge_loop rest
       (parts @ [transcript result],
        words + get0 (word_count result),
        time + get0 (processing_time result))"

definition merge_transcriptions :: "chunk_result list \<Rightarrow> report" where
  "merge_transcriptions results =
     (let successful = filter success results;
          failed = filter (\<lambda>r. \<not> success r) results
      in if successful = [] then
           \<lparr>rep_success = False,
            rep_error = Some ''All chunks failed to transcribe'',
            rep_transcript = [],
            total_chunks = None, successful_chunks = None, failed_chunks = None,
            total_words = None, total_processing_time = None,
            chunk_results = Some results\<rparr>
         else
           (case merge_loop successful ([], 0, 0) of
              (parts, words, time) \<Rightarrow>
                \<lparr>rep_success = True,
                 rep_error = None,
                 rep_transcript = str_replace nl3 nl2 (join nl2 parts),
                 total_chunks = Some (length results),
                 successful_chunks = Some (length successful),
                 failed_chunks = Some (length failed),
                 total_words = Some words,
                 total_processing_time = Some time,
                 chunk_results = Some results\<rparr>))"


subsection \<open>The environment: file system and remote service\<close>

text \<open>
  A call into a library either raises an exception (kept as its message, \<open>str(e)\<close>) or
  returns a value.
\<close>

datatype 'a outcome = Raises string | Returns 'a

text \<open>The \<open>state.name\<close> of an uploaded file.\<close>

datatype file_state = STATE_UNSPECIFIED | PROCESSING | ACTIVE | FAILED

text \<open>The calls made to the remote service, in the order they are made.\<close>

datatype api_call =
  UploadFile string
| GetFile string
| GenerateContent string
| DeleteFile string

text \<open>
  The state the pipeline acts on: the regular files and the directories that exist, and
  the trace of calls to the remote service.
\<close>

record world =
  files :: "string set"
  dirs :: "string set"
  calls :: "api_call list"

text \<open>
  What the remote service does for one chunk: the result of \<open>genai.upload_file\<close> (the
  name and first state of the uploaded file), of each successive \<open>genai.get_file\<close>, of
  \<open>generate_content\<close> (a response whose \<open>text\<close> property itself returns or raises), of
  \<open>genai.delete_file\<close>, and the time measured for the chunk. A service that leaves the
  file in \<open>PROCESSING\<close> forever is a list of polls that ends while the state is still
  \<open>PROCESSING\<close>.
\<close>

record remote_script =
  upload_file :: "(string \<times> file_state) outcome"
  get_file :: "file_state outcome list"
  generate_content :: "string outcome outcome"
  delete_file :: "unit outcome"
  chunk_time :: real

text \<open>
  What the surroundings do for one run: \<open>AudioSegment.from_file\<close> with \<open>len\<close> of its
  result, \<open>tempfile.mkdtemp\<close>, the remote service for the chunk of each index, and the
  wall-clock time of the run.
\<close>

record environment =
  audio :: "int outcome"
  temp_dir :: string
  scripts :: "nat \<Rightarrow> remote_script"
  wall_time :: real

record transcriber =
  chunk_duration_minutes :: int
  chunk_duration_ms :: int

text \<open>\<open>__init__\<close>, given the value of \<open>os.getenv('GOOGLE_API_KEY')\<close>.\<close>

definition init :: "string option \<Rightarrow> int \<Rightarrow> transcriber outcome" where
  "init google_key minutes =
     (if google_key = None \<or> google_key = Some [] then
        Raises ''GOOGLE_API_KEY not found in .env file''
      else
        Returns \<lparr>chunk_duration_minutes = minutes, chunk_duration_ms = minutes * 60 * 1000\<rparr>)"

subsection \<open>\<open>split_audio\<close>\<close>

type_synonym chunk_info = "string \<times> int \<times> int"

text \<open>
  The \<open>while chunk_start < total_duration_ms\<close> loop. Exporting a chunk creates its file;
  \<open>tempfile.mkdtemp\<close> and the export are taken to succeed. The loop need not end (a
  chunk duration that is not positive), so not returning is the value \<open>None\<close>.
\<close>

partial_function (option) split_loop ::
  "int \<Rightarrow> int \<Rightarrow> string \<Rightarrow> int \<Rightarrow> nat \<Rightarrow> chunk_info list \<Rightarrow> world \<Rightarrow>
     (chunk_info list \<times> world) option" where
  "split_loop duration_ms total_duration_ms tmp chunk_start chunk_number chunks w =
     (if chunk_start < total_duration_ms then
        split_loop duration_ms total_duration_ms tmp
          (min (chunk_start + duration_ms) total_duration_ms)
          (chunk_number + 1)
          (chunks @
             [(path_join tmp (''chunk_'' @ fmt_03d chunk_number @ ''.mp3''),
               chunk_start,
               min (chunk_start + duration_ms) total_duration_ms)])
          (w\<lparr>files :=
               insert (path_join tmp (''chunk_'' @ fmt_03d chunk_number @ ''.mp3'')) (files w)\<rparr>)
      else Some (chunks, w))"

declare split_loop.simps [code]

definition split_audio ::
  "transcriber \<Rightarrow> environment \<Rightarrow> string \<Rightarrow> world \<Rightarrow> (chunk_info list \<times> world) outcome option"
  where
  "split_audio self env audio_file_path w =
     (case audio env of
        Raises e \<Rightarrow> Some (Raises e)
      | Returns total_duration_ms \<Rightarrow>
          if total_duration_ms \<le> chunk_duration_ms self then
            Some (Returns ([(audio_file_path, 0, total_duration_ms)], w))
          else
            (case split_loop (chunk_duration_ms self) total_duration_ms (temp_dir env) 0 1 []
                    (w\<lparr>dirs := insert (temp_dir env) (dirs w)\<rparr>) of
               None \<Rightarrow> None
             | Some r \<Rightarrow> Some (Returns r)))"

subsection \<open>\<open>transcribe_chunk\<close>\<close>

definition called :: "api_call \<Rightarrow> world \<Rightarrow> world" where
  "called c w = w\<lparr>calls := calls w @ [c]\<rparr>"

text \<open>
  The \<open>while audio_file.state.name == "PROCESSING"\<close> loop: it returns the first state
  that is not \<open>PROCESSING\<close>, passes on the exception of a poll that raises, and does not
  return when the polls leave the file in \<open>PROCESSING\<close>.
\<close>

fun wait_processing ::
  "string \<Rightarrow> file_state \<Rightarrow> file_state outcome list \<Rightarrow> world \<Rightarrow>
     (file_state outcome \<times> world) option" where
  "wait_processing name st [] w = (if st = PROCESSING then None else Some (Returns st, w))"
| "wait_processing name st (poll # polls) w =
     (if st = PROCESSING then
        (case poll of
           Raises e \<Rightarrow> Some (Raises e, called (GetFile name) w)
         | Returns st' \<Rightarrow> wait_processing name st' polls (called (GetFile name) w))
      else Some (Returns st, w))"

text \<open>The four dictionaries \<open>transcribe_chunk\<close> returns.\<close>

definition processing_failed :: "nat \<Rightarrow> int \<Rightarrow> int \<Rightarrow> chunk_result" where
  "processing_failed chunk_index start_ms end_ms =
     \<lparr>success = False,
      error = Some (''Chunk '' @ str_nat (chunk_index + 1) @ '' processing failed''),
      transcript = [],
      start_time = start_ms, end_time = end_ms,
      processing_time = None, word_count = None\<rparr>"

definition transcribed :: "string \<Rightarrow> int \<Rightarrow> int \<Rightarrow> real \<Rightarrow> chunk_result" where
  "transcribed text start_ms end_ms time =
     \<lparr>success = True,
      error = None,
      transcript = str_strip text,
      start_time = start_ms, end_time = end_ms,
      processing_time = Some time,
      word_count = Some (int (length (str_split (str_strip text))))\<rparr>"

definition no_transcription :: "nat \<Rightarrow> int \<Rightarrow> int \<Rightarrow> real \<Rightarrow> chunk_result" where
  "no_transcription chunk_index start_ms end_ms time =
     \<lparr>success = False,
      error = Some (''No transcription generated for chunk '' @ str_nat (chunk_index + 1)),
      transcript = [],
      start_time = start_ms, end_time = end_ms,
      processing_time = Some time, word_count = None\<rparr>"

definition chunk_error :: "nat \<Rightarrow> int \<Rightarrow> int \<Rightarrow> string \<Rightarrow> chunk_result" where
  "chunk_error chunk_index start_ms end_ms e =
     \<lparr>success = False,
      error = Some (''Chunk '' @ str_nat (chunk_index + 1) @ '' error: '' @ e),
      transcript = [],
      start_time = start_ms, end_time = end_ms,
      processing_time = Some 0, word_count = None\<rparr>"

text \<open>
  \<open>transcribe_chunk\<close>. Every \<open>Raises\<close> branch is the \<open>except Exception\<close> handler. The
  lines before the \<open>try\<close> only format the time range for \<open>print\<close>.
\<close>

definition transcribe_chunk ::
  "remote_script \<Rightarrow> chunk_info \<Rightarrow> nat \<Rightarrow> nat \<Rightarrow> world \<Rightarrow> (chunk_result \<times> world) option" where
  "transcribe_chunk remote chunk_info chunk_index n_chunks w =
     (case chunk_info of (chunk_path, start_ms, end_ms) \<Rightarrow>
        (case upload_file remote of
           Raises e \<Rightarrow>
             Some (chunk_error chunk_index start_ms end_ms e, called (UploadFile chunk_path) w)
         | Returns (name, st) \<Rightarrow>
             (case wait_processing name st (get_file remote) (called (UploadFile chunk_path) w) of
                None \<Rightarrow> None
              | Some (Raises e, w1) \<Rightarrow> Some (chunk_error chunk_index start_ms end_ms e, w1)
              | Some (Returns st', w1) \<Rightarrow>
                  if st' = FAILED then Some (processing_failed chunk_index start_ms end_ms, w1)
                  else
                    (case generate_content remote of
                       Raises e \<Rightarrow>
                         Some (chunk_error chunk_index start_ms end_ms e,
                               called (GenerateContent name) w1)
                     | Returns response \<Rightarrow>
                         (case delete_file remote of
                            Raises e \<Rightarrow>
                              Some (chunk_error chunk_index start_ms end_ms e,
                                    called (DeleteFile name) (called (GenerateContent name) w1))
                          | Returns u \<Rightarrow>
                              (case response of
                                 Raises e \<Rightarrow>
                                   Some (chunk_error chunk_index start_ms end_ms e,
                                         called (DeleteFile name)
                                           (called (GenerateContent name) w1))
                               | Returns text \<Rightarrow>
                                   if text \<noteq> [] then
                                     Some (transcribed text start_ms end_ms (chunk_time remote),
                                           called (DeleteFile name)
                                             (called (GenerateContent name) w1))
                                   else
                                     Some (no_transcription chunk_index start_ms end_ms
                                             (chunk_time remote),
                                           called (DeleteFile name)
                                             (called (GenerateContent name) w1))))))))"

subsection \<open>\<open>transcribe_long_audio\<close>\<close>

text \<open>The loop \<open>for i, chunk_info in enumerate(chunks)\<close>, appending each result.\<close>

fun run_chunks ::
  "(nat \<Rightarrow> remote_script) \<Rightarrow> nat \<Rightarrow> nat \<Rightarrow> chunk_info list \<Rightarrow> chunk_result list \<Rightarrow> world \<Rightarrow>
     (chunk_result list \<times> world) option" where
  "run_chunks remote n_chunks i [] results w = Some (results, w)"
| "run_chunks remote n_chunks i (chunk_info # rest) results w =
     (case transcribe_chunk (remote i) chunk_info i n_chunks w of
        None \<Rightarrow> None
      | Some (chunk_result, w') \<Rightarrow>
          run_chunks remote n_chunks (Suc i) rest (results @ [chunk_result]) w')"

text \<open>
  The body of the cleanup loop for one temporary chunk. \<open>os.remove\<close> raises for a path
  that is not an existing regular file, and the bare \<open>except\<close> then skips the rest. The
  directory of the chunk is removed when it exists and \<open>os.listdir\<close> finds it empty.
\<close>

definition remove_chunk :: "string \<Rightarrow> world \<Rightarrow> world" where
  "remove_chunk chunk_path w =
     (if chunk_path \<notin> files w then w
      else if dirname chunk_path \<in> dirs w \<and>
              (\<forall>p \<in> (files w - {chunk_path}) \<union> dirs w. dirname p \<noteq> dirname chunk_path)
           then w\<lparr>files := files w - {chunk_path}, dirs := dirs w - {dirname chunk_path}\<rparr>
           else w\<lparr>files := files w - {chunk_path}\<rparr>)"

fun cleanup_chunks :: "chunk_info list \<Rightarrow> string \<Rightarrow> world \<Rightarrow> world" where
  "cleanup_chunks [] audio_file_path w = w"
| "cleanup_chunks ((chunk_path, start_ms, end_ms) # rest) audio_file_path w =
     cleanup_chunks rest audio_file_path
       (if chunk_path \<noteq> audio_file_path then remove_chunk chunk_path w else w)"

definition not_found :: "string \<Rightarrow> report" where
  "not_found audio_file_path =
     \<lparr>rep_success = False,
      rep_error = Some (''Audio file not found: '' @ audio_file_path),
      rep_transcript = [],
      total_chunks = None, successful_chunks = None, failed_chunks = None,
      total_words = None, total_processing_time = None,
      chunk_results = None\<rparr>"

definition overall_error :: "string \<Rightarrow> real \<Rightarrow> report" where
  "overall_error e time =
     \<lparr>rep_success = False,
      rep_error = Some (''Overall transcription error: '' @ e),
      rep_transcript = [],
      total_chunks = None, successful_chunks = None, failed_chunks = None,
      total_words = None, total_processing_time = Some time,
      chunk_results = None\<rparr>"

definition transcribe_long_audio ::
  "transcriber \<Rightarrow> environment \<Rightarrow> string \<Rightarrow> world \<Rightarrow> (report \<times> world) option" where
  "transcribe_long_audio self env audio_file_path w =
     (if audio_file_path \<notin> files w \<union> dirs w then Some (not_found audio_file_path, w)
      else
        (case split_audio self env audio_file_path w of
           None \<Rightarrow> None
         | Some (Raises e) \<Rightarrow> Some (overall_error e (wall_time env), w)
         | Some (Returns (chunks, w1)) \<Rightarrow>
             (case run_chunks (scripts env) (length chunks) 0 chunks [] w1 of
                None \<Rightarrow> None
              | Some (results, w2) \<Rightarrow>
                  Some ((merge_transcriptions results)
                          \<lparr>total_processing_time := Some (wall_time env)\<rparr>,
                        cleanup_chunks chunks audio_file_path w2))))"

subsection \<open>Vocabulary for the properties\<close>

text \<open>The start and the end of a chunk's window, in milliseconds.\<close>

definition window_start :: "chunk_info \<Rightarrow> int" where
  "window_start c = fst (snd c)"

definition window_end :: "chunk_info \<Rightarrow> int" where
  "window_end c = snd (snd c)"

text \<open>
  The windows the splitting loop produces from position \<open>s\<close> on, for chunk length \<open>C\<close>
  and total duration \<open>D\<close>: each starts where the loop stands and ends \<open>C\<close> later or at
  \<open>D\<close>, and the list ends where the loop's condition fails.
\<close>

fun chained :: "int \<Rightarrow> int \<Rightarrow> int \<Rightarrow> chunk_info list \<Rightarrow> bool" where
  "chained C s D [] \<longleftrightarrow> D \<le> s"
| "chained C s D (c # cs) \<longleftrightarrow>
     s < D \<and> window_start c = s \<and> window_end c = min (s + C) D \<and>
     chained C (min (s + C) D) D cs"



subsection \<open>The merged text as the specification words it\<close>

text \<open>
  The specification's merged text, for results that carry their chunk index: the
  transcripts of the successful chunks by ascending chunk index, joined by a double line
  break, with the same replacement of a triple line break applied.
\<close>

definition merged_by_index :: "(nat \<times> chunk_result) list \<Rightarrow> string" where
  "merged_by_index indexed =
     str_replace nl3 nl2
       (join nl2 (map (transcript \<circ> snd) (filter (success \<circ> snd) (sort_key fst indexed))))"

subsection \<open>Sample chunk results\<close>

text \<open>
  Results as \<open>transcribe_chunk\<close> builds them, for a track cut at 25 minutes: two
  transcribed chunks, a second chunk with an empty response measured at 5 seconds, a
  first chunk whose upload ended in \<open>FAILED\<close>, and a chunk whose text holds four line
  breaks in a row.
\<close>

definition chunk_one :: chunk_result where
  "chunk_one = transcribed ''In the beginning'' 0 1500000 3"

definition chunk_two :: chunk_result where
  "chunk_two = transcribed ''was the Word'' 1500000 3000000 4"

definition chunk_empty :: chunk_result where
  "chunk_empty = no_transcription 1 1500000 3000000 5"

definition chunk_failed :: chunk_result where
  "chunk_failed = processing_failed 0 0 1500000"

definition chunk_pause :: chunk_result where
  "chunk_pause = transcribed ''Amen.\<newline>\<newline>\<newline>\<newline>Let us pray.'' 0 1500000 3"

lemmas example_defs =
  chunk_one_def chunk_two_def chunk_empty_def chunk_failed_def chunk_pause_def
  transcribed_def no_transcription_def processing_failed_def
  str_strip_def str_split_def isspace_def str_nat.simps

subsection \<open>A sample run\<close>

text \<open>
  A recording of 62 minutes cut at 25 minutes. The remote service transcribes the first
  and the third chunk after two polls each and reports \<open>FAILED\<close> for the second.
\<close>

definition sermon_transcriber :: transcriber where
  "sermon_transcriber = \<lparr>chunk_duration_minutes = 25, chunk_duration_ms = 1500000\<rparr>"

definition sermon_world :: world where
  "sermon_world = \<lparr>files = {''sermon.mp3''}, dirs = {}, calls = []\<rparr>"

definition remote_ok :: "string \<Rightarrow> string \<Rightarrow> remote_script" where
  "remote_ok name text =
     \<lparr>upload_file = Returns (name, PROCESSING),
      get_file = [Returns PROCESSING, Returns ACTIVE],
      generate_content = Returns (Returns text),
      delete_file = Returns (),
      chunk_time = 3\<rparr>"

definition remote_failed :: "string \<Rightarrow> remote_script" where
  "remote_failed name =
     \<lparr>upload_file = Returns (name, PROCESSING),
      get_file = [Returns FAILED],
      generate_content = Returns (Returns []),
      delete_file = Returns (),
      chunk_time = 3\<rparr>"

definition sermon_env :: environment where
  "sermon_env =
     \<lparr>audio = Returns 3720000,
      temp_dir = ''/tmp/tmpk3x'',
      scripts = (\<lambda>i. if i = 0 then remote_ok ''files/a'' ''In the beginning  ''
                     else if i = 1 then remote_failed ''files/b''
                     else remote_ok ''files/c'' '' was the Word''),
      wall_time = 40\<rparr>"

definition sermon_chunks :: "chunk_info list" where
  "sermon_chunks =
     [(''/tmp/tmpk3x/chunk_001.mp3'', 0, 1500000),
      (''/tmp/tmpk3x/chunk_002.mp3'', 1500000, 3000000),
      (''/tmp/tmpk3x/chunk_003.mp3'', 3000000, 3720000)]"

definition chunk_two_info :: chunk_info where
  "chunk_two_info = (''/tmp/tmpk3x/chunk_002.mp3'', 1500000, 3000000)"

text \<open>The state after splitting, the chunk results, the report and the state after the run.\<close>

definition split_world :: world where
  "split_world =
     \<lparr>files = {''/tmp/tmpk3x/chunk_003.mp3'', ''/tmp/tmpk3x/chunk_002.mp3'',
               ''/tmp/tmpk3x/chunk_001.mp3'', ''sermon.mp3''},
      dirs = {''/tmp/tmpk3x''}, calls = []\<rparr>"

definition sermon_results :: "chunk_result list" where
  "sermon_results =
     [transcribed ''In the beginning  '' 0 1500000 3,
      processing_failed 1 1500000 3000000,
      transcribed '' was the Word'' 3000000 3720000 3]"

definition sermon_report :: report where
  "sermon_report =
     \<lparr>rep_success = True, rep_error = None,
      rep_transcript = ''In the beginning\<newline>\<newline>was the Word'',
      total_chunks = Some 3, successful_chunks = Some 2, failed_chunks = Some 1,
      total_words = Some 6, total_processing_time = Some 40,
      chunk_results = Some sermon_results\<rparr>"

definition sermon_world_after :: world where
  "sermon_world_after =
     \<lparr>files = {''sermon.mp3''}, dirs = {},
      calls =
        [UploadFile ''/tmp/tmpk3x/chunk_001.mp3'', GetFile ''files/a'', GetFile ''files/a'',
         GenerateContent ''files/a'', DeleteFile ''files/a'',
         UploadFile ''/tmp/tmpk3x/chunk_002.mp3'', GetFile ''files/b'',
         UploadFile ''/tmp/tmpk3x/chunk_003.mp3'', GetFile ''files/c'', GetFile ''files/c'',
         GenerateContent ''files/c'', DeleteFile ''files/c'']\<rparr>"

text \<open>A service that refuses the upload, and the same recording cut to 10 minutes.\<close>

definition remote_down :: remote_script where
  "remote_down =
     \<lparr>upload_file = Raises ''503 Service Unavailable'',
      get_file = [],
      generate_content = Raises ''unreachable'',
      delete_file = Returns (),
      chunk_time = 0\<rparr>"

definition short_env :: environment where
  "short_env = sermon_env\<lparr>audio := Returns 600000\<rparr>"

lemmas result_defs =
  chunk_error_def processing_failed_def no_transcription_def transcribed_def

lemmas sermon_defs =
  sermon_transcriber_def sermon_env_def sermon_world_def remote_ok_def remote_failed_def
  chunk_two_info_def split_world_def sermon_report_def sermon_world_after_def

lemmas eval_defs =
  transcribe_chunk_def called_def result_defs str_strip_def str_split_def isspace_def
  str_nat.simps path_join_def fmt_03d_def numeral_2_eq_2

section \<open>Properties of the merger\<close>

lemma merge_loop_eq:
  "merge_loop rs (parts, words, time) =
     (parts @ map transcript rs,
      words + sum_list (map (\<lambda>r. get0 (word_count r)) rs),
      time + sum_list (map (\<lambda>r. get0 (processing_time r)) rs))"
  by (induction rs arbitrary: parts words time) (simp_all add: add.assoc)

lemma merge_all_failed:
  "filter success rs = [] \<Longrightarrow>
     merge_transcriptions rs =
       \<lparr>rep_success = False,
        rep_error = Some ''All chunks failed to transcribe'',
        rep_transcript = [],
        total_chunks = None, successful_chunks = None, failed_chunks = None,
        total_words = None, total_processing_time = None,
        chunk_results = Some rs\<rparr>"
  by (simp add: merge_transcriptions_def)

lemma merge_some_success:
  "filter success rs \<noteq> [] \<Longrightarrow>
     merge_transcriptions rs =
       \<lparr>rep_success = True,
        rep_error = None,
        rep_transcript = str_replace nl3 nl2 (join nl2 (map transcript (filter success rs))),
        total_chunks = Some (length rs),
        successful_chunks = Some (length (filter success rs)),
        failed_chunks = Some (length (filter (\<lambda>r. \<not> success r) rs)),
        total_words = Some (sum_list (map (\<lambda>r. get0 (word_count r)) (filter success rs))),
        total_processing_time =
          Some (sum_list (map (\<lambda>r. get0 (processing_time r)) (filter success rs))),
        chunk_results = Some rs\<rparr>"
  by (simp add: merge_transcriptions_def merge_loop_eq Let_def)

lemma filter_success_empty_iff: "filter success rs = [] \<longleftrightarrow> (\<forall>r\<in>set rs. \<not> success r)"
  by (simp add: filter_empty_conv)

lemma merge_transcript_eq:
  "rep_transcript (merge_transcriptions rs) =
     str_replace nl3 nl2 (join nl2 (map transcript (filter success rs)))"
  by (cases "filter success rs = []")
    (simp_all add: merge_all_failed merge_some_success str_replace_def nl3_def)

text \<open>
  C6. The report of \<open>merge_transcriptions\<close> has \<open>success = True\<close> exactly when at least
  one entry of the input list has \<open>success = True\<close>; when every entry failed, the report
  has \<open>success = False\<close> and an empty transcript.
\<close>

theorem merge_success_iff:
  "(rep_success (merge_transcriptions rs) \<longleftrightarrow> (\<exists>r\<in>set rs. success r)) \<and>
   ((\<forall>r\<in>set rs. \<not> success r) \<longrightarrow>
      \<not> rep_success (merge_transcriptions rs) \<and> rep_transcript (merge_transcriptions rs) = [])"
proof (cases "filter success rs = []")
  case True
  then have "\<forall>r\<in>set rs. \<not> success r"
    by (simp add: filter_success_empty_iff)
  with True show ?thesis
    by (simp add: merge_all_failed)
next
  case False
  then have "\<exists>r\<in>set rs. success r"
    by (simp add: filter_success_empty_iff)
  with False show ?thesis
    by (auto simp add: merge_some_success)
qed

theorem merge_success_iff_witness:
  "rep_success (merge_transcriptions [chunk_failed, chunk_two]) \<and>
   \<not> rep_success (merge_transcriptions [chunk_failed, chunk_empty]) \<and>
   rep_transcript (merge_transcriptions [chunk_failed, chunk_empty]) = []"
  using merge_success_iff [of "[chunk_failed, chunk_two]"]
    merge_success_iff [of "[chunk_failed, chunk_empty]"]
  by (simp add: example_defs)

text \<open>
  C5, as the code has it. When at least one entry succeeded, the report holds
  \<open>total_chunks\<close> equal to the length of the input list, and \<open>successful_chunks\<close> and
  \<open>failed_chunks\<close> count the entries with and without success, so they add up to
  \<open>total_chunks\<close>. When no entry succeeded, the report holds none of the three counts:
  it has \<open>success = False\<close> and the list of chunk results only.
\<close>

theorem merge_counts:
  "((\<exists>r\<in>set rs. success r) \<longrightarrow>
      total_chunks (merge_transcriptions rs) = Some (length rs) \<and>
      successful_chunks (merge_transcriptions rs) = Some (length (filter success rs)) \<and>
      failed_chunks (merge_transcriptions rs) = Some (length (filter (\<lambda>r. \<not> success r) rs)) \<and>
      length (filter success rs) + length (filter (\<lambda>r. \<not> success r) rs) = length rs) \<and>
   ((\<forall>r\<in>set rs. \<not> success r) \<longrightarrow>
      total_chunks (merge_transcriptions rs) = None \<and>
      successful_chunks (merge_transcriptions rs) = None \<and>
      failed_chunks (merge_transcriptions rs) = None \<and>
      \<not> rep_success (merge_transcriptions rs) \<and>
      chunk_results (merge_transcriptions rs) = Some rs)"
proof (cases "filter success rs = []")
  case True
  then have "\<forall>r\<in>set rs. \<not> success r"
    by (simp add: filter_success_empty_iff)
  with True show ?thesis
    by (simp add: merge_all_failed)
next
  case False
  then have some: "\<exists>r\<in>set rs. success r"
    by (simp add: filter_success_empty_iff)
  have "length (filter success rs) + length (filter (\<lambda>r. \<not> success r) rs) = length rs"
    by (rule sum_length_filter_compl)
  with False some show ?thesis
    by (auto simp add: merge_some_success)
qed

theorem merge_counts_witness:
  "total_chunks (merge_transcriptions [chunk_one, chunk_empty]) = Some 2 \<and>
   successful_chunks (merge_transcriptions [chunk_one, chunk_empty]) = Some 1 \<and>
   failed_chunks (merge_transcriptions [chunk_one, chunk_empty]) = Some 1 \<and>
   total_chunks (merge_transcriptions [chunk_failed]) = None \<and>
   successful_chunks (merge_transcriptions [chunk_failed]) = None \<and>
   failed_chunks (merge_transcriptions [chunk_failed]) = None"
  using merge_counts [of "[chunk_one, chunk_empty]"] merge_counts [of "[chunk_failed]"]
  by (simp add: example_defs)

text \<open>
  C5 as stated fails where every entry failed: for the one-element list of a chunk whose
  upload ended in \<open>FAILED\<close>, the report has no \<open>total_chunks\<close>.
\<close>

theorem merge_counts_all_failed_counterexample:
  "total_chunks (merge_transcriptions [chunk_failed]) \<noteq> Some (length [chunk_failed])"
  by (simp add: merge_transcriptions_def example_defs)

text \<open>
  C1, as the code has it. \<open>merge_transcriptions\<close> keeps the order of its input list: the
  merged text is the transcripts of the successful entries in list order, joined by a
  double line break (with the replacement of triple line breaks). It is the text by
  ascending chunk index when the list is given in ascending chunk index, which is how
  \<open>transcribe_long_audio\<close> builds it.
\<close>

theorem merge_keeps_list_order:
  "rep_transcript (merge_transcriptions (map snd indexed)) =
     str_replace nl3 nl2
       (join nl2 (map (transcript \<circ> snd) (filter (success \<circ> snd) indexed))) \<and>
   (sorted (map fst indexed) \<longrightarrow>
      rep_transcript (merge_transcriptions (map snd indexed)) = merged_by_index indexed)"
proof -
  have list_order:
    "rep_transcript (merge_transcriptions (map snd indexed)) =
       str_replace nl3 nl2
         (join nl2 (map (transcript \<circ> snd) (filter (success \<circ> snd) indexed)))"
    by (simp add: merge_transcript_eq filter_map comp_def)
  have "sort_key fst indexed = indexed" if "sorted (map fst indexed)"
    using that by (rule sort_key_id_if_sorted)
  with list_order show ?thesis
    by (simp add: merged_by_index_def)
qed

theorem merge_keeps_list_order_witness:
  "sorted (map fst [(0::nat, chunk_one), (1, chunk_empty), (2, chunk_two)]) \<and>
   rep_transcript
     (merge_transcriptions (map snd [(0::nat, chunk_one), (1, chunk_empty), (2, chunk_two)])) =
     ''In the beginning\<newline>\<newline>was the Word'' \<and>
   merged_by_index [(0, chunk_one), (1, chunk_empty), (2, chunk_two)] =
     ''In the beginning\<newline>\<newline>was the Word''"
  using merge_keeps_list_order [of "[(0, chunk_one), (1, chunk_empty), (2, chunk_two)]"]
  by (simp add: merge_transcript_eq merged_by_index_def example_defs str_replace_def
      nl2_def nl3_def)

text \<open>
  C1 as stated fails: fed the second chunk's result before the first chunk's, the merged
  text has the second chunk's transcript first, which is not the text by ascending chunk
  index.
\<close>

theorem merge_order_counterexample:
  "rep_transcript (merge_transcriptions (map snd [(1, chunk_two), (0, chunk_one)])) \<noteq>
     merged_by_index [(1, chunk_two), (0, chunk_one)]"
  by (simp add: merge_transcript_eq merged_by_index_def example_defs str_replace_def
      nl2_def nl3_def)

text \<open>
  C3 at a failing input. The replacement of \<open>'\n\n\n'\<close> by \<open>'\n\n'\<close> is one pass that does
  not look at its own output again: of a run of four line breaks it rewrites the first
  three and leaves three. For the single successful chunk with the transcript
  \<open>'Amen.\n\n\n\nLet us pray.'\<close> the merged transcript still holds a run of three
  line breaks.
\<close>

theorem merge_leaves_triple_newline:
  "rep_transcript (merge_transcriptions [chunk_pause]) =
     ''Amen.\<newline>\<newline>\<newline>Let us pray.'' \<and>
   longest_newline_run (rep_transcript (merge_transcriptions [chunk_pause])) = 3"
  by (simp add: merge_transcript_eq example_defs str_replace_def nl2_def nl3_def
      longest_newline_run_def)

section \<open>Properties of the splitter\<close>

lemma split_loop_returns:
  "0 < C \<Longrightarrow>
     \<exists>new w'. split_loop C D tmp s k acc w = Some (acc @ new, w') \<and> chained C s D new \<and>
       files w \<subseteq> files w' \<and> dirs w' = dirs w \<and> calls w' = calls w"
proof (induction "nat (D - s)" arbitrary: s k acc w rule: less_induct)
  case less
  show ?case
  proof (cases "s < D")
    case False
    then show ?thesis
      by (subst split_loop.simps) simp
  next
    case True
    define e where "e = min (s + C) D"
    define c where "c = (path_join tmp (''chunk_'' @ fmt_03d k @ ''.mp3''), s, e)"
    define w1 where "w1 = w\<lparr>files := insert (fst c) (files w)\<rparr>"
    have "nat (D - e) < nat (D - s)"
      using True less.prems by (simp add: e_def min_def)
    from less.hyps [OF this less.prems, of "k + 1" "acc @ [c]" w1]
    obtain new w' where new:
      "split_loop C D tmp e (k + 1) (acc @ [c]) w1 = Some ((acc @ [c]) @ new, w')"
      "chained C e D new" "files w1 \<subseteq> files w'" "dirs w' = dirs w1" "calls w' = calls w1"
      by blast
    have "split_loop C D tmp s k acc w = split_loop C D tmp e (k + 1) (acc @ [c]) w1"
      using True by (subst split_loop.simps) (simp add: e_def c_def w1_def)
    with new have "split_loop C D tmp s k acc w = Some (acc @ (c # new), w')"
      by simp
    moreover have "chained C s D (c # new)"
      using True new(2) by (simp add: c_def e_def window_start_def window_end_def)
    moreover have "files w \<subseteq> files w'" "dirs w' = dirs w" "calls w' = calls w"
      using new(3,4,5) by (auto simp add: w1_def)
    ultimately show ?thesis
      by blast
  qed
qed

lemma chained_length:
  "0 < C \<Longrightarrow> chained C s D cs \<Longrightarrow> s \<le> D \<Longrightarrow> int (length cs) = - ((s - D) div C)"
proof (induction cs arbitrary: s)
  case Nil
  then show ?case by simp
next
  case (Cons c cs)
  from Cons.prems(2) have step: "s < D" "chained C (min (s + C) D) D cs"
    by auto
  have IH: "int (length cs) = - ((min (s + C) D - D) div C)"
    using Cons.IH [OF Cons.prems(1) step(2)] by simp
  show ?case
  proof (cases "s + C \<le> D")
    case True
    then have "min (s + C) D - D = (s - D) + C"
      by simp
    moreover have "(s - D + C) div C = (s - D) div C + 1"
      using Cons.prems(1) by simp
    ultimately have "(min (s + C) D - D) div C = (s - D) div C + 1"
      by (simp only:)
    with IH show ?thesis by simp
  next
    case False
    then have "min (s + C) D = D"
      by simp
    moreover have "(s - D) div C = - 1"
    proof -
      have "(s - D + C) div C = 0"
        using False step(1) by (intro div_pos_pos_trivial) simp_all
      moreover have "(s - D + C) div C = (s - D) div C + 1"
        using Cons.prems(1) by simp
      ultimately show ?thesis
        by simp
    qed
    ultimately show ?thesis
      using IH by simp
  qed
qed


lemma chained_windows:
  "0 < C \<Longrightarrow> chained C s D cs \<Longrightarrow>
     \<forall>c\<in>set cs. s \<le> window_start c \<and> window_start c < window_end c \<and>
       window_end c - window_start c \<le> C \<and> window_end c \<le> D"
proof (induction cs arbitrary: s)
  case Nil
  then show ?case by simp
next
  case (Cons c cs)
  from Cons.prems(2) have step:
    "s < D" "window_start c = s" "window_end c = min (s + C) D" "chained C (window_end c) D cs"
    by simp_all
  have "s < window_end c"
    using step(1,3) Cons.prems(1) by simp
  moreover have "\<forall>d\<in>set cs. window_end c \<le> window_start d \<and> window_start d < window_end d \<and>
       window_end d - window_start d \<le> C \<and> window_end d \<le> D"
    using Cons.IH [OF Cons.prems(1) step(4)] .
  ultimately show ?case
    using step(2,3) by auto
qed

lemma chained_adjacent:
  "chained C s D cs \<Longrightarrow> Suc i < length cs \<Longrightarrow>
     window_start (cs ! Suc i) = window_end (cs ! i)"
proof (induction cs arbitrary: s i)
  case Nil
  then show ?case by simp
next
  case (Cons c cs)
  from Cons.prems(1) have tail: "chained C (window_end c) D cs" "window_end c = min (s + C) D"
    by simp_all
  show ?case
  proof (cases i)
    case 0
    with Cons.prems(2) obtain d ds where "cs = d # ds"
      by (cases cs) auto
    with tail(1) 0 show ?thesis
      by simp
  next
    case (Suc j)
    with Cons.prems(2) have "Suc j < length cs"
      by simp
    from Cons.IH [OF tail(1) this] Suc show ?thesis
      by simp
  qed
qed

lemma chained_first:
  "chained C s D cs \<Longrightarrow> cs \<noteq> [] \<Longrightarrow> window_start (hd cs) = s"
  by (cases cs) simp_all

lemma chained_last:
  "chained C s D cs \<Longrightarrow> cs \<noteq> [] \<Longrightarrow> s \<le> D \<Longrightarrow> window_end (last cs) = D"
proof (induction cs arbitrary: s)
  case Nil
  then show ?case by simp
next
  case (Cons c cs)
  from Cons.prems(1) have step:
    "s < D" "window_end c = min (s + C) D" "chained C (window_end c) D cs"
    by simp_all
  show ?case
  proof (cases cs)
    case Nil
    with step(3) have "D \<le> window_end c"
      by simp
    with step(2) Nil show ?thesis
      by simp
  next
    case (Cons d ds)
    then have "cs \<noteq> []"
      by simp
    moreover have "window_end c \<le> D"
      using step(2) by simp
    ultimately have "window_end (last cs) = D"
      using Cons.IH [OF step(3)] by blast
    with Cons show ?thesis
      by simp
  qed
qed

lemma chained_ordered:
  "0 < C \<Longrightarrow> chained C s D cs \<Longrightarrow> i < j \<Longrightarrow> j < length cs \<Longrightarrow>
     window_end (cs ! i) \<le> window_start (cs ! j)"
proof (induction cs arbitrary: s i j)
  case Nil
  then show ?case by simp
next
  case (Cons c cs)
  from Cons.prems(2) have tail: "chained C (window_end c) D cs" "window_end c = min (s + C) D"
    by simp_all
  obtain j' where j: "j = Suc j'"
    using Cons.prems(3) by (cases j) auto
  then have j': "j' < length cs"
    using Cons.prems(4) by simp
  show ?case
  proof (cases i)
    case 0
    from chained_windows [OF Cons.prems(1) tail(1)] j'
    have "window_end c \<le> window_start (cs ! j')"
      by simp
    with 0 j show ?thesis
      by simp
  next
    case (Suc i')
    with j Cons.prems(3) have "i' < j'"
      by simp
    from Cons.IH [OF Cons.prems(1) tail(1) this j'] Suc j show ?thesis
      by simp
  qed
qed

lemma ceiling_one: "0 < D \<Longrightarrow> D \<le> C \<Longrightarrow> \<lceil>real_of_int D / real_of_int C\<rceil> = 1"
proof -
  assume D: "0 < D" "D \<le> C"
  have "(- D + C) div C = 0"
    using D by (intro div_pos_pos_trivial) simp_all
  moreover have "(- D + C) div C = - D div C + 1"
    by (rule div_add_self2) (use D in simp)
  ultimately have "- D div C = - 1"
    by simp
  then show ?thesis
    by (simp add: ceiling_divide_eq_div)
qed


lemma split_loop_diverges:
  assumes "split_loop C D tmp s k acc w = Some r"
  shows "s < D \<longrightarrow> 0 < C"
proof (rule split_loop.raw_induct
    [where P = "\<lambda>C D tmp s k acc w r. s < D \<longrightarrow> 0 < C", OF _ assms])
  fix f C D tmp s k acc w and r :: "chunk_info list \<times> world"
  assume IH: "\<And>C D tmp s k acc w r. f C D tmp s k acc w = Some r \<Longrightarrow> s < D \<longrightarrow> 0 < C"
    and body: "(if s < D then
        f C D tmp (min (s + C) D) (k + 1)
          (acc @ [(path_join tmp (''chunk_'' @ fmt_03d k @ ''.mp3''), s, min (s + C) D)])
          (w\<lparr>files := insert (path_join tmp (''chunk_'' @ fmt_03d k @ ''.mp3'')) (files w)\<rparr>)
      else Some (acc, w)) = Some r"
  show "s < D \<longrightarrow> 0 < C"
  proof
    assume "s < D"
    with body have "f C D tmp (min (s + C) D) (k + 1)
        (acc @ [(path_join tmp (''chunk_'' @ fmt_03d k @ ''.mp3''), s, min (s + C) D)])
        (w\<lparr>files := insert (path_join tmp (''chunk_'' @ fmt_03d k @ ''.mp3'')) (files w)\<rparr>) = Some r"
      by simp
    from IH [OF this] have "min (s + C) D < D \<longrightarrow> 0 < C" .
    with \<open>s < D\<close> show "0 < C"
      by (cases "0 < C") (simp_all add: min_def)
  qed
qed

lemma split_audio_never_returns:
  assumes "chunk_duration_ms self \<le> 0" and "audio env = Returns D" and "0 < D"
  shows "split_audio self env audio_file_path w = None"
proof -
  have "chunk_duration_ms self < D"
    using assms(1,3) by simp
  moreover have "split_loop (chunk_duration_ms self) D (temp_dir env) 0 1 []
      (w\<lparr>dirs := insert (temp_dir env) (dirs w)\<rparr>) = None"
  proof (cases "split_loop (chunk_duration_ms self) D (temp_dir env) 0 1 []
      (w\<lparr>dirs := insert (temp_dir env) (dirs w)\<rparr>)")
    case None
    then show ?thesis .
  next
    case (Some r)
    from split_loop_diverges [OF this] assms(1,3) show ?thesis
      by simp
  qed
  ultimately show ?thesis
    using assms(2) by (simp add: split_audio_def)
qed

lemma sermon_init: "init (Some ''key'') 25 = Returns sermon_transcriber"
  by (simp add: init_def sermon_transcriber_def)

lemma sermon_split:
  "split_audio sermon_transcriber sermon_env ''sermon.mp3'' sermon_world =
     Some (Returns (sermon_chunks, split_world))"
  by (simp add: split_audio_def sermon_defs sermon_chunks_def split_loop.simps eval_defs)

text \<open>
  C8. For a chunk length \<open>C > 0\<close> and a track of duration \<open>D > 0\<close> milliseconds,
  \<open>split_audio\<close> returns, and returns \<open>\<lceil>D / C\<rceil>\<close> chunks (one when \<open>D \<le> C\<close>). The first
  window starts at 0, the last ends at \<open>D\<close>, every window starts where the one before it
  ends, no two windows overlap, and every window, the last included, is longer than zero
  and at most \<open>C\<close> long.
\<close>

theorem split_audio_windows:
  assumes "0 < chunk_duration_ms self" and "audio env = Returns D" and "0 < D"
  shows "\<exists>chunks w'.
     split_audio self env audio_file_path w = Some (Returns (chunks, w')) \<and>
     int (length chunks) = \<lceil>real_of_int D / real_of_int (chunk_duration_ms self)\<rceil> \<and>
     (D \<le> chunk_duration_ms self \<longrightarrow> length chunks = 1) \<and>
     chunks \<noteq> [] \<and> window_start (hd chunks) = 0 \<and> window_end (last chunks) = D \<and>
     (\<forall>i. Suc i < length chunks \<longrightarrow>
        window_start (chunks ! Suc i) = window_end (chunks ! i)) \<and>
     (\<forall>i j. i < j \<and> j < length chunks \<longrightarrow>
        window_end (chunks ! i) \<le> window_start (chunks ! j)) \<and>
     (\<forall>c\<in>set chunks. window_start c < window_end c \<and>
        window_end c - window_start c \<le> chunk_duration_ms self)"
proof (cases "D \<le> chunk_duration_ms self")
  case True
  have "split_audio self env audio_file_path w = Some (Returns ([(audio_file_path, 0, D)], w))"
    using True assms(2) by (simp add: split_audio_def)
  moreover have "\<lceil>real_of_int D / real_of_int (chunk_duration_ms self)\<rceil> = 1"
    using assms(3) True by (rule ceiling_one)
  ultimately show ?thesis
    using assms(1,3) True by (simp add: window_start_def window_end_def)
next
  case False
  define C where "C = chunk_duration_ms self"
  define w0 where "w0 = w\<lparr>dirs := insert (temp_dir env) (dirs w)\<rparr>"
  from split_loop_returns [of C D "temp_dir env" 0 1 "[]" w0] assms(1)
  obtain chunks w' where loop:
    "split_loop C D (temp_dir env) 0 1 [] w0 = Some (chunks, w')" "chained C 0 D chunks"
    by (auto simp add: C_def)
  have C: "0 < C"
    using assms(1) by (simp add: C_def)
  have run: "split_audio self env audio_file_path w = Some (Returns (chunks, w'))"
    using False assms(2) loop(1) by (simp add: split_audio_def C_def w0_def)
  have len: "int (length chunks) = \<lceil>real_of_int D / real_of_int C\<rceil>"
    using chained_length [OF C loop(2)] assms(3) by (simp add: ceiling_divide_eq_div)
  have nonempty: "chunks \<noteq> []"
    using loop(2) assms(3) by (cases chunks) simp_all
  have first: "window_start (hd chunks) = 0"
    using loop(2) nonempty by (rule chained_first)
  have final: "window_end (last chunks) = D"
    using loop(2) nonempty assms(3) by (intro chained_last [of C 0]) simp_all
  have adjacent: "\<forall>i. Suc i < length chunks \<longrightarrow>
      window_start (chunks ! Suc i) = window_end (chunks ! i)"
    using chained_adjacent [OF loop(2)] by blast
  have ordered: "\<forall>i j. i < j \<and> j < length chunks \<longrightarrow>
      window_end (chunks ! i) \<le> window_start (chunks ! j)"
    using chained_ordered [OF C loop(2)] by blast
  have sizes: "\<forall>c\<in>set chunks. window_start c < window_end c \<and> window_end c - window_start c \<le> C"
    using chained_windows [OF C loop(2)] by blast
  from run len nonempty first final adjacent ordered sizes False show ?thesis
    unfolding C_def by blast
qed

theorem split_audio_windows_witness:
  "0 < chunk_duration_ms sermon_transcriber \<and> audio sermon_env = Returns 3720000 \<and>
   (\<exists>chunks w'.
      split_audio sermon_transcriber sermon_env ''sermon.mp3'' sermon_world =
        Some (Returns (chunks, w')) \<and>
      length chunks = 3 \<and> window_start (hd chunks) = 0 \<and> window_end (last chunks) = 3720000)"
  using split_audio_windows [of sermon_transcriber sermon_env 3720000 "''sermon.mp3''" sermon_world]
  by (auto simp add: sermon_transcriber_def sermon_env_def)

section \<open>Properties of the worker and the orchestrator\<close>


lemma wait_processing_world:
  "wait_processing name st polls w = Some (res, w1) \<Longrightarrow>
     files w1 = files w \<and> dirs w1 = dirs w \<and>
     (\<exists>n. calls w1 = calls w @ replicate n (GetFile name))"
proof (induction polls arbitrary: st w)
  case Nil
  then show ?case
    by (auto split: if_splits)
next
  case (Cons poll polls)
  show ?case
  proof (cases "st = PROCESSING")
    case False
    with Cons.prems show ?thesis
      by auto
  next
    case True
    show ?thesis
    proof (cases poll)
      case (Raises e)
      with True Cons.prems have "w1 = called (GetFile name) w"
        by simp
      then have "calls w1 = calls w @ replicate 1 (GetFile name)" "files w1 = files w" "dirs w1 = dirs w"
        by (simp_all add: called_def)
      then show ?thesis
        by blast
    next
      case (Returns st')
      with True Cons.prems
      have "wait_processing name st' polls (called (GetFile name) w) = Some (res, w1)"
        by simp
      from Cons.IH [OF this] obtain n where
        "files w1 = files w" "dirs w1 = dirs w"
        "calls w1 = calls w @ replicate (Suc n) (GetFile name)"
        by (auto simp add: called_def)
      then show ?thesis
        by blast
    qed
  qed
qed


lemma transcribe_chunk_files:
  "transcribe_chunk remote chunk_info i n w = Some (r, w') \<Longrightarrow>
     files w' = files w \<and> dirs w' = dirs w"
  by (auto simp add: transcribe_chunk_def called_def
      split: prod.splits outcome.splits option.splits if_splits
      dest!: wait_processing_world)



lemma run_chunks_files:
  "run_chunks remote n k chunks results w = Some (rs, w') \<Longrightarrow>
     files w' = files w \<and> dirs w' = dirs w"
proof (induction chunks arbitrary: k results w)
  case Nil
  then show ?case by simp
next
  case (Cons c chunks)
  then obtain r w1 where first: "transcribe_chunk (remote k) c k n w = Some (r, w1)"
    and rest: "run_chunks remote n (Suc k) chunks (results @ [r]) w1 = Some (rs, w')"
    by (auto split: option.splits)
  from transcribe_chunk_files [OF first] Cons.IH [OF rest] show ?case
    by simp
qed

lemma remove_chunk_files: "files (remove_chunk c w) = files w - {c}"
  by (auto simp add: remove_chunk_def)

lemma cleanup_chunks_files:
  "files (cleanup_chunks chunks audio_file_path w) =
     files w - (fst ` set chunks - {audio_file_path})"
proof (induction chunks arbitrary: w)
  case Nil
  then show ?case by simp
next
  case (Cons c chunks)
  obtain p s e where c: "c = (p, s, e)"
    by (cases c) auto
  show ?case
    by (auto simp add: c Cons.IH remove_chunk_files)
qed

lemma split_loop_files:
  assumes "split_loop C D tmp s k acc w = Some r"
  shows "files w \<subseteq> files (snd r)"
proof (rule split_loop.raw_induct
    [where P = "\<lambda>C D tmp s k acc w r. files w \<subseteq> files (snd r)", OF _ assms])
  fix f C D tmp s k acc w and r :: "chunk_info list \<times> world"
  assume IH: "\<And>C D tmp s k acc w r. f C D tmp s k acc w = Some r \<Longrightarrow> files w \<subseteq> files (snd r)"
    and body: "(if s < D then
        f C D tmp (min (s + C) D) (k + 1)
          (acc @ [(path_join tmp (''chunk_'' @ fmt_03d k @ ''.mp3''), s, min (s + C) D)])
          (w\<lparr>files := insert (path_join tmp (''chunk_'' @ fmt_03d k @ ''.mp3'')) (files w)\<rparr>)
      else Some (acc, w)) = Some r"
  show "files w \<subseteq> files (snd r)"
  proof (cases "s < D")
    case True
    with body have "f C D tmp (min (s + C) D) (k + 1)
        (acc @ [(path_join tmp (''chunk_'' @ fmt_03d k @ ''.mp3''), s, min (s + C) D)])
        (w\<lparr>files := insert (path_join tmp (''chunk_'' @ fmt_03d k @ ''.mp3'')) (files w)\<rparr>) = Some r"
      by simp
    from IH [OF this] show ?thesis
      by auto
  next
    case False
    with body show ?thesis
      by auto
  qed
qed

lemma split_audio_files:
  "split_audio self env audio_file_path w = Some (Returns (chunks, w1)) \<Longrightarrow>
     files w \<subseteq> files w1"
  by (auto simp add: split_audio_def split: outcome.splits if_splits option.splits
      dest!: split_loop_files)

lemma transcribe_long_audio_keeps_source:
  assumes "transcribe_long_audio self env audio_file_path w = Some (rep, w')"
    and "audio_file_path \<in> files w"
  shows "audio_file_path \<in> files w'"
proof (cases "split_audio self env audio_file_path w")
  case None
  with assms show ?thesis
    by (simp add: transcribe_long_audio_def)
next
  case (Some split)
  show ?thesis
  proof (cases split)
    case (Raises e)
    with Some assms show ?thesis
      by (simp add: transcribe_long_audio_def)
  next
    case (Returns made)
    obtain chunks w1 where made: "made = (chunks, w1)"
      by (cases made) auto
    from Some Returns made have split_ok:
      "split_audio self env audio_file_path w = Some (Returns (chunks, w1))"
      by simp
    with assms(1,2) obtain results w2 where
      loop: "run_chunks (scripts env) (length chunks) 0 chunks [] w1 = Some (results, w2)"
      and w': "w' = cleanup_chunks chunks audio_file_path w2"
      by (auto simp add: transcribe_long_audio_def split: option.splits)
    have "audio_file_path \<in> files w1"
      using split_audio_files [OF split_ok] assms(2) by auto
    with run_chunks_files [OF loop] have "audio_file_path \<in> files w2"
      by simp
    with w' show ?thesis
      by (simp add: cleanup_chunks_files)
  qed
qed

lemma transcribe_long_audio_wall_time:
  assumes "transcribe_long_audio self env audio_file_path w = Some (rep, w')"
    and "audio_file_path \<in> files w \<union> dirs w"
  shows "total_processing_time rep = Some (wall_time env)"
  using assms
  by (auto simp add: transcribe_long_audio_def overall_error_def
      split: option.splits outcome.splits prod.splits)

lemma failed_chunk_run:
  "transcribe_chunk (remote_failed ''files/b'') chunk_two_info 1 3 split_world =
     Some (processing_failed 1 1500000 3000000,
           split_world\<lparr>calls := [UploadFile ''/tmp/tmpk3x/chunk_002.mp3'', GetFile ''files/b'']\<rparr>)"
  by (simp add: sermon_defs eval_defs)

lemma sermon_loop:
  "run_chunks (scripts sermon_env) 3 0 sermon_chunks [] split_world =
     Some (sermon_results, split_world\<lparr>calls := calls sermon_world_after\<rparr>)"
  by (simp add: sermon_chunks_def sermon_results_def sermon_defs eval_defs)

lemma sermon_merge:
  "(merge_transcriptions sermon_results)\<lparr>total_processing_time := Some 40\<rparr> = sermon_report"
  by (simp add: sermon_results_def sermon_report_def merge_transcriptions_def result_defs
      str_strip_def str_split_def isspace_def str_nat.simps str_replace_def nl2_def nl3_def get0_def)


lemma sermon_dirnames:
  "dirname ''/tmp/tmpk3x/chunk_001.mp3'' = ''/tmp/tmpk3x''"
  "dirname ''/tmp/tmpk3x/chunk_002.mp3'' = ''/tmp/tmpk3x''"
  "dirname ''/tmp/tmpk3x/chunk_003.mp3'' = ''/tmp/tmpk3x''"
  "dirname ''/tmp/tmpk3x'' = ''/tmp''"
  "dirname ''sermon.mp3'' = []"
  by (simp_all add: dirname_def)


lemma sermon_cleanup:
  "cleanup_chunks sermon_chunks ''sermon.mp3'' (split_world\<lparr>calls := cs\<rparr>) =
     \<lparr>files = {''sermon.mp3''}, dirs = {}, calls = cs\<rparr>"
  by (simp add: sermon_chunks_def split_world_def remove_chunk_def sermon_dirnames insert_Diff_if)

lemma sermon_run:
  "transcribe_long_audio sermon_transcriber sermon_env ''sermon.mp3'' sermon_world =
     Some (sermon_report, sermon_world_after)"
proof -
  have "''sermon.mp3'' \<in> files sermon_world \<union> dirs sermon_world"
    by (simp add: sermon_world_def)
  moreover have "length sermon_chunks = 3"
    by (simp add: sermon_chunks_def)
  moreover have "wall_time sermon_env = 40"
    by (simp add: sermon_env_def)
  moreover have "\<lparr>files = {''sermon.mp3''}, dirs = {}, calls = calls sermon_world_after\<rparr> =
      sermon_world_after"
    by (simp add: sermon_world_after_def)
  ultimately show ?thesis
    using sermon_split sermon_loop sermon_cleanup [of "calls sermon_world_after"] sermon_merge
    by (simp add: transcribe_long_audio_def sermon_chunks_def [symmetric])
qed

lemma transcribe_chunk_failures:
  fixes remote p s e i n w
  defines "T \<equiv> transcribe_chunk remote (p, s, e) i n w"
    and "W name st \<equiv> wait_processing name st (get_file remote) (called (UploadFile p) w)"
  shows upload_raises:
      "upload_file remote = Raises msg \<Longrightarrow> \<exists>w'. T = Some (chunk_error i s e msg, w')"
    and poll_raises:
      "upload_file remote = Returns (name, st) \<Longrightarrow> W name st = Some (Raises msg, w1) \<Longrightarrow>
         T = Some (chunk_error i s e msg, w1)"
    and remote_state_failed:
      "upload_file remote = Returns (name, st) \<Longrightarrow> W name st = Some (Returns FAILED, w1) \<Longrightarrow>
         T = Some (processing_failed i s e, w1)"
    and generate_raises:
      "upload_file remote = Returns (name, st) \<Longrightarrow> W name st = Some (Returns st', w1) \<Longrightarrow>
         st' \<noteq> FAILED \<Longrightarrow> generate_content remote = Raises msg \<Longrightarrow>
         \<exists>w'. T = Some (chunk_error i s e msg, w')"
    and delete_raises:
      "upload_file remote = Returns (name, st) \<Longrightarrow> W name st = Some (Returns st', w1) \<Longrightarrow>
         st' \<noteq> FAILED \<Longrightarrow> generate_content remote = Returns resp \<Longrightarrow>
         delete_file remote = Raises msg \<Longrightarrow>
         \<exists>w'. T = Some (chunk_error i s e msg, w')"
    and text_raises:
      "upload_file remote = Returns (name, st) \<Longrightarrow> W name st = Some (Returns st', w1) \<Longrightarrow>
         st' \<noteq> FAILED \<Longrightarrow> generate_content remote = Returns (Raises msg) \<Longrightarrow>
         delete_file remote = Returns () \<Longrightarrow>
         \<exists>w'. T = Some (chunk_error i s e msg, w')"
    and empty_text:
      "upload_file remote = Returns (name, st) \<Longrightarrow> W name st = Some (Returns st', w1) \<Longrightarrow>
         st' \<noteq> FAILED \<Longrightarrow> generate_content remote = Returns (Returns []) \<Longrightarrow>
         delete_file remote = Returns () \<Longrightarrow>
         \<exists>w'. T = Some (no_transcription i s e (chunk_time remote), w')"
  unfolding T_def W_def by (simp_all add: transcribe_chunk_def)




lemma down_chunk_run:
  "transcribe_chunk remote_down chunk_two_info 1 3 split_world =
     Some (chunk_error 1 1500000 3000000 ''503 Service Unavailable'',
           split_world\<lparr>calls := [UploadFile ''/tmp/tmpk3x/chunk_002.mp3'']\<rparr>)"
  by (simp add: remote_down_def chunk_two_info_def split_world_def transcribe_chunk_def called_def)

lemma ok_chunk_run:
  "transcribe_chunk (remote_ok ''files/a'' ''In the beginning  '')
       (''/tmp/tmpk3x/chunk_001.mp3'', 0, 1500000) 0 3 split_world =
     Some (transcribed ''In the beginning  '' 0 1500000 3,
           split_world\<lparr>calls :=
             [UploadFile ''/tmp/tmpk3x/chunk_001.mp3'', GetFile ''files/a'', GetFile ''files/a'',
              GenerateContent ''files/a'', DeleteFile ''files/a'']\<rparr>)"
  by (simp add: remote_ok_def split_world_def transcribe_chunk_def called_def)




text \<open>
  C9. Every result of \<open>transcribe_chunk\<close> with \<open>success = False\<close> has an empty
  transcript and a non-empty error message, and every result with \<open>success = True\<close> has
  no error.
\<close>

theorem transcribe_chunk_invariant:
  "transcribe_chunk remote chunk_info i n w = Some (r, w') \<Longrightarrow>
     (\<not> success r \<longrightarrow> transcript r = [] \<and> (\<exists>e. error r = Some e \<and> e \<noteq> [])) \<and>
     (success r \<longrightarrow> error r = None)"
  by (auto simp add: transcribe_chunk_def result_defs
      split: prod.splits outcome.splits option.splits if_splits)

theorem transcribe_chunk_invariant_witness:
  "\<not> success (processing_failed 1 1500000 3000000) \<and>
   transcript (processing_failed 1 1500000 3000000) = [] \<and>
   error (processing_failed 1 1500000 3000000) = Some ''Chunk 2 processing failed'' \<and>
   success (transcribed ''In the beginning  '' 0 1500000 3) \<and>
   error (transcribed ''In the beginning  '' 0 1500000 3) = None"
  using transcribe_chunk_invariant [OF failed_chunk_run] transcribe_chunk_invariant [OF ok_chunk_run]
  by (simp add: processing_failed_def transcribed_def str_nat.simps)




text \<open>
  C10. A track no longer than the chunk length is returned as the single chunk whose
  payload is the source path itself, with no file created. The cleanup loop keeps the
  source file and every file that is not a chunk payload. A run of
  \<open>transcribe_long_audio\<close> on an existing source file leaves that file in place.
\<close>

theorem source_file_kept:
  "(audio env = Returns D \<and> D \<le> chunk_duration_ms self \<longrightarrow>
      split_audio self env audio_file_path w =
        Some (Returns ([(audio_file_path, 0, D)], w))) \<and>
   (audio_file_path \<in> files w \<longrightarrow>
      audio_file_path \<in> files (cleanup_chunks chunks audio_file_path w)) \<and>
   files w - fst ` set chunks \<subseteq> files (cleanup_chunks chunks audio_file_path w) \<and>
   (transcribe_long_audio self env audio_file_path w = Some (rep, w') \<and>
    audio_file_path \<in> files w \<longrightarrow> audio_file_path \<in> files w')"
proof (intro conjI)
  show "audio env = Returns D \<and> D \<le> chunk_duration_ms self \<longrightarrow>
      split_audio self env audio_file_path w =
        Some (Returns ([(audio_file_path, 0, D)], w))"
    by (simp add: split_audio_def)
  show "audio_file_path \<in> files w \<longrightarrow>
      audio_file_path \<in> files (cleanup_chunks chunks audio_file_path w)"
    by (simp add: cleanup_chunks_files)
  show "files w - fst ` set chunks \<subseteq> files (cleanup_chunks chunks audio_file_path w)"
    by (auto simp add: cleanup_chunks_files)
  show "transcribe_long_audio self env audio_file_path w = Some (rep, w') \<and>
    audio_file_path \<in> files w \<longrightarrow> audio_file_path \<in> files w'"
    using transcribe_long_audio_keeps_source by blast
qed

theorem source_file_kept_witness:
  "split_audio sermon_transcriber short_env ''sermon.mp3'' sermon_world =
     Some (Returns ([(''sermon.mp3'', 0, 600000)], sermon_world)) \<and>
   ''sermon.mp3'' \<in> files (cleanup_chunks sermon_chunks ''sermon.mp3'' split_world) \<and>
   ''sermon.mp3'' \<in> files sermon_world_after"
proof -
  note short =
    source_file_kept
      [where env = short_env and D = 600000 and self = sermon_transcriber
        and audio_file_path = "''sermon.mp3''" and w = sermon_world and chunks = "[]"
        and rep = sermon_report and w' = sermon_world_after]
  note long =
    source_file_kept
      [where env = sermon_env and D = 3720000 and self = sermon_transcriber
        and audio_file_path = "''sermon.mp3''" and w = sermon_world and chunks = "[]"
        and rep = sermon_report and w' = sermon_world_after]
  note cleanup =
    source_file_kept
      [where env = sermon_env and D = 3720000 and self = sermon_transcriber
        and audio_file_path = "''sermon.mp3''" and w = split_world and chunks = sermon_chunks
        and rep = sermon_report and w' = sermon_world_after]
  have "audio short_env = Returns 600000" "600000 \<le> chunk_duration_ms sermon_transcriber"
    by (simp_all add: short_env_def sermon_env_def sermon_transcriber_def)
  with short have one: "split_audio sermon_transcriber short_env ''sermon.mp3'' sermon_world =
      Some (Returns ([(''sermon.mp3'', 0, 600000)], sermon_world))"
    by blast
  have "''sermon.mp3'' \<in> files sermon_world"
    by (simp add: sermon_world_def)
  with long sermon_run have kept: "''sermon.mp3'' \<in> files sermon_world_after"
    by blast
  have "''sermon.mp3'' \<in> files split_world"
    by (simp add: split_world_def)
  with cleanup have "''sermon.mp3'' \<in> files (cleanup_chunks sermon_chunks ''sermon.mp3'' split_world)"
    by blast
  with one kept show ?thesis
    by simp
qed

text \<open>
  C4, as the code has it. When at least one entry succeeded, \<open>total_processing_time\<close>
  of the merged report is the sum of the processing times of the successful entries only
  (an entry without the key counts 0); when none succeeded the report has no
  \<open>total_processing_time\<close>. \<open>transcribe_long_audio\<close> then overwrites the field with its
  wall-clock time.
\<close>

theorem merge_total_processing_time:
  "((\<exists>r\<in>set rs. success r) \<longrightarrow>
      total_processing_time (merge_transcriptions rs) =
        Some (sum_list (map (\<lambda>r. get0 (processing_time r)) (filter success rs)))) \<and>
   ((\<forall>r\<in>set rs. \<not> success r) \<longrightarrow> total_processing_time (merge_transcriptions rs) = None) \<and>
   (transcribe_long_audio self env audio_file_path w = Some (rep, w') \<and>
    audio_file_path \<in> files w \<union> dirs w \<longrightarrow>
      total_processing_time rep = Some (wall_time env))"
proof (intro conjI impI)
  assume "\<exists>r\<in>set rs. success r"
  then have "filter success rs \<noteq> []"
    by (simp add: filter_success_empty_iff)
  then show "total_processing_time (merge_transcriptions rs) =
      Some (sum_list (map (\<lambda>r. get0 (processing_time r)) (filter success rs)))"
    by (simp add: merge_some_success)
next
  assume "\<forall>r\<in>set rs. \<not> success r"
  then have "filter success rs = []"
    by (simp add: filter_success_empty_iff)
  then show "total_processing_time (merge_transcriptions rs) = None"
    by (simp add: merge_all_failed)
next
  assume "transcribe_long_audio self env audio_file_path w = Some (rep, w') \<and>
    audio_file_path \<in> files w \<union> dirs w"
  then show "total_processing_time rep = Some (wall_time env)"
    using transcribe_long_audio_wall_time by blast
qed

theorem merge_total_processing_time_witness:
  "total_processing_time (merge_transcriptions [chunk_one, chunk_empty]) = Some 3 \<and>
   total_processing_time (merge_transcriptions [chunk_failed, chunk_empty]) = None \<and>
   total_processing_time sermon_report = Some (wall_time sermon_env)"
proof -
  note partial =
    merge_total_processing_time
      [where rs = "[chunk_one, chunk_empty]" and self = sermon_transcriber and env = sermon_env
        and audio_file_path = "''sermon.mp3''" and w = sermon_world and rep = sermon_report
        and w' = sermon_world_after]
  note none =
    merge_total_processing_time
      [where rs = "[chunk_failed, chunk_empty]" and self = sermon_transcriber and env = sermon_env
        and audio_file_path = "''sermon.mp3''" and w = sermon_world and rep = sermon_report
        and w' = sermon_world_after]
  have "\<exists>r\<in>set [chunk_one, chunk_empty]. success r"
    by (simp add: example_defs)
  with partial have "total_processing_time (merge_transcriptions [chunk_one, chunk_empty]) =
      Some (sum_list (map (\<lambda>r. get0 (processing_time r)) (filter success [chunk_one, chunk_empty])))"
    by blast
  then have one: "total_processing_time (merge_transcriptions [chunk_one, chunk_empty]) = Some 3"
    by (simp add: example_defs get0_def)
  have "\<forall>r\<in>set [chunk_failed, chunk_empty]. \<not> success r"
    by (simp add: example_defs)
  with none have two: "total_processing_time (merge_transcriptions [chunk_failed, chunk_empty]) = None"
    by blast
  have "''sermon.mp3'' \<in> files sermon_world \<union> dirs sermon_world"
    by (simp add: sermon_world_def)
  with partial sermon_run have "total_processing_time sermon_report = Some (wall_time sermon_env)"
    by blast
  with one two show ?thesis
    by simp
qed

text \<open>
  C4 as stated fails: a chunk that failed with an empty response carries its measured
  time (5 seconds here), and the merged total leaves it out.
\<close>

theorem merge_time_all_chunks_counterexample:
  "total_processing_time (merge_transcriptions [chunk_one, chunk_empty]) \<noteq>
     Some (sum_list (map (\<lambda>r. get0 (processing_time r)) [chunk_one, chunk_empty]))"
  by (simp add: merge_transcriptions_def example_defs get0_def)

end
